theory Spec2Isabelle
  imports Complex_Main "HOL-Library.Word"
begin

unbundle bit_operations_syntax

section \<open>The reweight command (src/bin/fstreweight.cc)\<close>

text \<open>
  \<^verbatim>\<open>main\<close> talks to four collaborators that live outside the two source files:
  \<^verbatim>\<open>MutableFstClass::Read\<close>, \<^verbatim>\<open>ReadPotentials\<close>, \<^verbatim>\<open>Reweight\<close> and
  \<^verbatim>\<open>MutableFstClass::Write\<close>. They are parameters of the model, collected in a record:
  a null pointer from \<^verbatim>\<open>Read\<close> is \<open>None\<close>, a \<^verbatim>\<open>false\<close> from
  \<^verbatim>\<open>ReadPotentials\<close> is \<open>None\<close>, and \<^verbatim>\<open>Write\<close> reports whether it succeeded.
\<close>

datatype ReweightType = REWEIGHT_TO_INITIAL | REWEIGHT_TO_FINAL

text \<open>
  Modelled from the spec: \<^verbatim>\<open>GetReweightType\<close> of fst/script/getters.h is not among the
  sources; section 6 describes the flag as "a boolean flag selecting ToFinal vs ToInitial
  direction".
\<close>

definition GetReweightType :: "bool \<Rightarrow> ReweightType" where
  "GetReweightType to_final = (if to_final then REWEIGHT_TO_FINAL else REWEIGHT_TO_INITIAL)"

record ('fst, 'p) collaborators =
  Read :: "string \<Rightarrow> 'fst option"
  WeightType :: "'fst \<Rightarrow> string"
  ReadPotentials :: "string \<Rightarrow> string \<Rightarrow> 'p list option"
  Reweight :: "'fst \<Rightarrow> 'p list \<Rightarrow> ReweightType \<Rightarrow> 'fst"
  Write :: "'fst \<Rightarrow> string \<Rightarrow> bool"

text \<open>What the process did, in order: the observable effects of one run.\<close>

datatype 'fst effect =
    ShowUsage
  | ReweightCall ReweightType
  | WriteCall string 'fst bool

record 'fst run =
  status :: int
  effects :: "'fst effect list"

text \<open>
  \<open>argv\<close> is the argument vector left by \<^verbatim>\<open>SET_FLAGS\<close> (program name first, flags
  removed), so \<^verbatim>\<open>argc\<close> is its length; \<open>FLAGS_to_final\<close> is the parsed flag.
\<close>

definition main :: "('fst, 'p) collaborators \<Rightarrow> bool \<Rightarrow> string list \<Rightarrow> 'fst run" where
  "main env FLAGS_to_final argv =
    (let argc = length argv in
     if argc < 3 \<or> argc > 4 then \<lparr>status = 1, effects = [ShowUsage]\<rparr>
     else
       let in_name = argv ! 1;
           potentials_name = argv ! 2;
           out_name = (if argc > 3 then argv ! 3 else [])
       in case Read env in_name of
            None \<Rightarrow> \<lparr>status = 1, effects = []\<rparr>
          | Some ifst \<Rightarrow>
              (case ReadPotentials env (WeightType env ifst) potentials_name of
                 None \<Rightarrow> \<lparr>status = 1, effects = []\<rparr>
               | Some potential \<Rightarrow>
                   let t = GetReweightType FLAGS_to_final;
                       fst' = Reweight env ifst potential t
                   in \<lparr>status = 0,
                       effects = [ReweightCall t, WriteCall out_name fst' (Write env fst' out_name)]\<rparr>))"

fun is_WriteCall :: "'fst effect \<Rightarrow> bool" where
  "is_WriteCall (WriteCall n f ok) = True"
| "is_WriteCall e = False"

fun is_ReweightCall :: "'fst effect \<Rightarrow> bool" where
  "is_ReweightCall (ReweightCall t) = True"
| "is_ReweightCall e = False"

text \<open>Whether both loads of a run with a well-formed command line succeed.\<close>

definition loads_ok :: "('fst, 'p) collaborators \<Rightarrow> string list \<Rightarrow> bool" where
  "loads_ok env argv =
    (case Read env (argv ! 1) of
       None \<Rightarrow> False
     | Some ifst \<Rightarrow> ReadPotentials env (WeightType env ifst) (argv ! 2) \<noteq> None)"

text \<open>A small environment for concrete runs: automata are lists of integers.\<close>

definition test_env :: "bool \<Rightarrow> (int list, int) collaborators" where
  "test_env write_ok =
    \<lparr>Read = (\<lambda>n. if n = ''in.fst'' then Some [1, 2] else None),
     WeightType = (\<lambda>f. ''tropical''),
     ReadPotentials = (\<lambda>t n. if n = ''pot.txt'' then Some [0, 0] else None),
     Reweight = (\<lambda>f p t. f),
     Write = (\<lambda>f n. write_ok)\<rparr>"

section \<open>The weight interface (fst/weight.h)\<close>

text \<open>
  The base weight \<^verbatim>\<open>W\<close> is a template parameter of every definition of
  sparse-power-weight.h. It is passed here as a record of its operations. The tolerance of
  \<^verbatim>\<open>ApproxEqual\<close> is a \<^verbatim>\<open>float\<close> that the power weight only hands on to
  \<^verbatim>\<open>W\<close>, so its type is left open as \<open>'d\<close>.
\<close>

datatype DivideType = DIVIDE_LEFT | DIVIDE_RIGHT | DIVIDE_ANY

record ('w, 'd) weight_class =
  WZero :: 'w
  WOne :: 'w
  WPlus :: "'w \<Rightarrow> 'w \<Rightarrow> 'w"
  WTimes :: "'w \<Rightarrow> 'w \<Rightarrow> 'w"
  WDivide :: "'w \<Rightarrow> 'w \<Rightarrow> DivideType \<Rightarrow> 'w"
  WApproxEqual :: "'w \<Rightarrow> 'w \<Rightarrow> 'd \<Rightarrow> bool"
  WProperties :: "64 word"
  WType :: string

text \<open>
  The constants of fst/weight.h that sparse-power-weight.h names are not among the sources.
  They are parameters: the default tolerance \<^verbatim>\<open>kDelta\<close> and the four property bits.
\<close>

record 'd weight_h =
  kDelta :: 'd
  kLeftSemiring :: "64 word"
  kRightSemiring :: "64 word"
  kCommutative :: "64 word"
  kIdempotent :: "64 word"

section \<open>Sparse tuple weights (fst/sparse-tuple-weight.h)\<close>

text \<open>
  Modelled from the spec: the class \<^verbatim>\<open>SparseTupleWeight\<close> of
  fst/sparse-tuple-weight.h is not among the sources. Section 3 of the spec describes a
  tuple as an ordered sequence of (key, value) pairs over integer keys, in which the key -1
  is reserved and never a dimension. The value at the reserved key is the field
  \<open>DefaultValue\<close> (a tuple without that pair has \<^verbatim>\<open>W::Zero()\<close> there), and the
  pairs of the dimensions, which the iterator walks, are the field \<open>Pairs\<close>. Equality of
  tuples is equality of these ("two tuples are equal iff their materialized key sets and
  values are equal").
\<close>

record 'w SparseTupleWeight =
  DefaultValue :: 'w
  Pairs :: "(int \<times> 'w) list"

text \<open>Modelled from the spec: the reserved key, "conventionally -1" (section 3).\<close>

definition kNoKey :: int where
  "kNoKey = - 1"

text \<open>Modelled from the spec: \<^verbatim>\<open>SparseTupleWeight::Zero()\<close>, "the empty tuple".\<close>

definition SparseTupleWeight_Zero :: "('w, 'd) weight_class \<Rightarrow> 'w SparseTupleWeight" where
  "SparseTupleWeight_Zero W = \<lparr>DefaultValue = WZero W, Pairs = []\<rparr>"

text \<open>
  Modelled from the spec: \<^verbatim>\<open>SparseTupleWeight::One()\<close>, "the single pair mapping the
  reserved key to W::One()".
\<close>

definition SparseTupleWeight_One :: "('w, 'd) weight_class \<Rightarrow> 'w SparseTupleWeight" where
  "SparseTupleWeight_One W = \<lparr>DefaultValue = WOne W, Pairs = []\<rparr>"

text \<open>
  Modelled from the spec: the single-value constructor \<^verbatim>\<open>SparseTupleWeight(weight)\<close>,
  which gives "a tuple whose only entry is the reserved key" (section 4.1).
\<close>

definition SparseTupleWeight_of :: "'w \<Rightarrow> 'w SparseTupleWeight" where
  "SparseTupleWeight_of weight = \<lparr>DefaultValue = weight, Pairs = []\<rparr>"

text \<open>The keys of the materialised pairs, in their order.\<close>

definition Keys :: "'w SparseTupleWeight \<Rightarrow> int list" where
  "Keys t = map fst (Pairs t)"

text \<open>
  Modelled from the spec: reading a coordinate. A materialised pair gives its value; an
  absent key reads as the value at the reserved key, which is \<^verbatim>\<open>W::Zero()\<close> for a
  tuple without that pair ("absent keys are defined to read as W::Zero()").
\<close>

definition ValueAt :: "'w SparseTupleWeight \<Rightarrow> int \<Rightarrow> 'w" where
  "ValueAt t k = (case map_of (Pairs t) k of None \<Rightarrow> DefaultValue t | Some v \<Rightarrow> v)"

text \<open>
  Modelled from the spec: the traversal of \<^verbatim>\<open>SparseTupleWeightMap\<close>. "Key traversal
  order must be the union of both operands' key orders, each key visited exactly once":
  the ordered union of two key sequences.
\<close>

fun KeyUnion :: "int list \<Rightarrow> int list \<Rightarrow> int list" where
  "KeyUnion [] ks2 = ks2"
| "KeyUnion (k1 # ks1) [] = k1 # ks1"
| "KeyUnion (k1 # ks1) (k2 # ks2) =
     (if k1 = k2 then k1 # KeyUnion ks1 ks2
      else if k1 < k2 then k1 # KeyUnion ks1 (k2 # ks2)
      else k2 # KeyUnion (k1 # ks1) ks2)"

text \<open>
  Modelled from the spec: \<^verbatim>\<open>SparseTupleWeightMap\<close>, the merge of section 4.1. The
  result has, for every key of either operand, the pair \<open>(key, Map key v1 v2)\<close>, where a
  side that lacks the key is read through \<open>ValueAt\<close> ("whether a key is read from t1,
  t2, or synthesized as zero/one for the reserved sentinel key is determined by presence,
  not position"). The reserved key is mapped like the others. A pair is omitted when its
  value is what an absent key of the result reads as: for operands without reserved-key
  pair and a mapper that sends two Zeros to Zero these are the pairs "whose result equals
  W::Zero()", and under the ApproxEqual mapper the merge of two approximately equal
  operands is \<^verbatim>\<open>One()\<close>, as section 4.1 requires.
\<close>

definition SparseTupleWeightMap ::
  "(int \<Rightarrow> 'w \<Rightarrow> 'w \<Rightarrow> 'w) \<Rightarrow> 'w SparseTupleWeight \<Rightarrow> 'w SparseTupleWeight
     \<Rightarrow> 'w SparseTupleWeight" where
  "SparseTupleWeightMap Map w1 w2 =
     (let result_default = Map kNoKey (DefaultValue w1) (DefaultValue w2)
      in \<lparr>DefaultValue = result_default,
          Pairs = filter (\<lambda>p. snd p \<noteq> result_default)
                    (map (\<lambda>k. (k, Map k (ValueAt w1 k) (ValueAt w2 k)))
                       (KeyUnion (Keys w1) (Keys w2)))\<rparr>)"

section \<open>Sparse power weights (src/include/fst/sparse-power-weight.h)\<close>

subsection \<open>The mappers\<close>


definition SparseTupleWeightTimesMapper ::
  "('w, 'd) weight_class \<Rightarrow> int \<Rightarrow> 'w \<Rightarrow> 'w \<Rightarrow> 'w" where
  "SparseTupleWeightTimesMapper W k v1 v2 = WTimes W v1 v2"


definition SparseTupleWeightApproxMapper ::
  "('w, 'd) weight_class \<Rightarrow> 'd \<Rightarrow> int \<Rightarrow> 'w \<Rightarrow> 'w \<Rightarrow> 'w" where
  "SparseTupleWeightApproxMapper W delta k v1 v2 =
     (if WApproxEqual W v1 v2 delta then WOne W else WZero W)"

subsection \<open>The class\<close>

text \<open>
  \<^verbatim>\<open>SparsePowerWeight<W, K>\<close> derives from \<^verbatim>\<open>SparseTupleWeight<W, K>\<close> and adds no
  field, and its converting constructor copies the tuple: both are one type here.
\<close>

type_synonym 'w SparsePowerWeight = "'w SparseTupleWeight"

definition Zero_SPW :: "('w, 'd) weight_class \<Rightarrow> 'w SparsePowerWeight" where
  "Zero_SPW W = SparseTupleWeight_Zero W"

definition One_SPW :: "('w, 'd) weight_class \<Rightarrow> 'w SparsePowerWeight" where
  "One_SPW W = SparseTupleWeight_One W"

text \<open>
  Modelled from the spec: \<^verbatim>\<open>Int64ToStr\<close> of fst/util.h is not among the sources. It
  is taken to write the decimal numeral of its argument, which is what makes the key
  width readable in the type name ("a rank/key-width suffix", section 3). The digits of
  a natural number, most significant first:
\<close>

definition DigitChars :: string where
  "DigitChars = ''0123456789''"

fun DecimalDigits :: "nat \<Rightarrow> string" where
  "DecimalDigits n =
     (if n < 10 then [DigitChars ! n]
      else DecimalDigits (n div 10) @ [DigitChars ! (n mod 10)])"

declare DecimalDigits.simps [simp del]

text \<open>Modelled from the spec: \<^verbatim>\<open>Int64ToStr\<close> itself, with the sign of a negative number.\<close>

definition Int64ToStr :: "int \<Rightarrow> string" where
  "Int64ToStr n = (if n < 0 then CHR ''-'' # DecimalDigits (nat (- n)) else DecimalDigits (nat n))"

text \<open>
  \<^verbatim>\<open>Type()\<close> keeps its answer in a function-local static string, one per instantiation
  and empty at first: the model takes the static and returns the answer with the static's
  new content. \<open>sizeof_K\<close> is \<^verbatim>\<open>sizeof(K)\<close> in bytes; \<^verbatim>\<open>sizeof(uint32)\<close> is 4.
\<close>

definition Type_SPW :: "('w, 'd) weight_class \<Rightarrow> nat \<Rightarrow> string \<Rightarrow> string \<times> string" where
  "Type_SPW W sizeof_K type =
     (let type1 =
        (if type = [] then
           (let type2 = WType W @ ''_^n''
            in if sizeof_K \<noteq> 4
               then type2 @ (''_'' @ Int64ToStr (8 * int sizeof_K))
               else type2)
         else type)
      in (type1, type1))"

definition Properties_SPW :: "'d weight_h \<Rightarrow> ('w, 'd) weight_class \<Rightarrow> 64 word" where
  "Properties_SPW H W =
     WProperties W AND (kLeftSemiring H OR kRightSemiring H OR kCommutative H OR kIdempotent H)"

subsection \<open>The operations\<close>


definition Times_SPW ::
  "('w, 'd) weight_class \<Rightarrow> 'w SparsePowerWeight \<Rightarrow> 'w SparsePowerWeight \<Rightarrow> 'w SparsePowerWeight" where
  "Times_SPW W w1 w2 = SparseTupleWeightMap (SparseTupleWeightTimesMapper W) w1 w2"


text \<open>
  \<^verbatim>\<open>DotProduct\<close> is declared to return \<^verbatim>\<open>const W &\<close>, and what it returns is its
  automatic variable \<^verbatim>\<open>result\<close>. A reference is modelled by the object it refers to
  at the time the caller reads it: an object that is alive, or an automatic object of the
  callee, destroyed when the callee returned. The second keeps the value the object held,
  for the record; reading through such a reference is undefined and gives no value.
\<close>

datatype 'w reference = ToLiveObject 'w | ToDestroyedLocal 'w

fun ReadReference :: "'w reference \<Rightarrow> 'w option" where
  "ReadReference (ToLiveObject v) = Some v"
| "ReadReference (ToDestroyedLocal v) = None"

text \<open>
  \<^verbatim>\<open>DotProduct\<close> walks the materialised pairs of the product with the iterator,
  accumulates in the local \<^verbatim>\<open>result\<close> and returns a reference to it.
\<close>

definition DotProduct ::
  "('w, 'd) weight_class \<Rightarrow> 'w SparsePowerWeight \<Rightarrow> 'w SparsePowerWeight \<Rightarrow> 'w reference" where
  "DotProduct W w1 w2 =
     (let product = Times_SPW W w1 w2;
          result = fold (\<lambda>it result. WPlus W result (snd it)) (Pairs product) (WZero W)
      in ToDestroyedLocal result)"

definition ApproxEqual_SPW ::
  "'d weight_h \<Rightarrow> ('w, 'd) weight_class \<Rightarrow> 'w SparsePowerWeight \<Rightarrow> 'w SparsePowerWeight \<Rightarrow> 'd
     \<Rightarrow> bool" where
  "ApproxEqual_SPW H W w1 w2 delta =
     (let operator_mapper = SparseTupleWeightApproxMapper W (kDelta H);
          result = SparseTupleWeightMap operator_mapper w1 w2
      in result = One_SPW W)"




subsection \<open>What the spec says of the operations\<close>

text \<open>"a side missing the key contributes W::Zero()".\<close>

definition ValueOrZero :: "('w, 'd) weight_class \<Rightarrow> 'w SparsePowerWeight \<Rightarrow> int \<Rightarrow> 'w" where
  "ValueOrZero W t k = (case map_of (Pairs t) k of None \<Rightarrow> WZero W | Some v \<Rightarrow> v)"

text \<open>
  "for every key present in either t1 or t2", "each key visited exactly once": the keys of
  both operands, every key once, in ascending order, whatever the order and the repetitions
  in the operands.
\<close>

definition AllKeys :: "'w SparsePowerWeight \<Rightarrow> 'w SparsePowerWeight \<Rightarrow> int list" where
  "AllKeys t1 t2 = sort (remdups (Keys t1 @ Keys t2))"


text \<open>
  "DotProduct(p1,p2) == Plus over all k of Times(p1[k], p2[k]), with absent keys
  contributing Zero": the accumulation from Zero over the keys of either operand, every
  key once, in key order.
\<close>

definition DotProduct_spec ::
  "('w, 'd) weight_class \<Rightarrow> 'w SparsePowerWeight \<Rightarrow> 'w SparsePowerWeight \<Rightarrow> 'w" where
  "DotProduct_spec W p1 p2 =
     fold (\<lambda>k acc. WPlus W acc (WTimes W (ValueOrZero W p1 k) (ValueOrZero W p2 k)))
       (AllKeys p1 p2) (WZero W)"

text \<open>
  The ApproxEqual of the spec: the merge under the mapper built with the caller's
  \<open>delta\<close>, compared with \<^verbatim>\<open>One()\<close>.
\<close>

definition ApproxEqual_spec ::
  "('w, 'd) weight_class \<Rightarrow> 'w SparsePowerWeight \<Rightarrow> 'w SparsePowerWeight \<Rightarrow> 'd \<Rightarrow> bool" where
  "ApproxEqual_spec W w1 w2 delta =
     (SparseTupleWeightMap (SparseTupleWeightApproxMapper W delta) w1 w2 = One_SPW W)"

subsection \<open>Instances for concrete runs\<close>

text \<open>
  A min-plus weight over the rationals, \<open>None\<close> standing for plus infinity, and
  values for the constants of fst/weight.h: the tolerance 1/1024 and four distinct bits.
  The weight sets a fifth bit, 16, that is none of the four.
\<close>

definition weight_h_values :: "rat weight_h" where
  "weight_h_values =
     \<lparr>kDelta = 1 / 1024, kLeftSemiring = 1, kRightSemiring = 2, kCommutative = 4,
      kIdempotent = 8\<rparr>"

definition MinPlus :: "(rat option, rat) weight_class" where
  "MinPlus =
     \<lparr>WZero = None,
      WOne = Some 0,
      WPlus = (\<lambda>a b. case a of None \<Rightarrow> b
                      | Some x \<Rightarrow> (case b of None \<Rightarrow> Some x | Some y \<Rightarrow> Some (min x y))),
      WTimes = (\<lambda>a b. case a of None \<Rightarrow> None
                      | Some x \<Rightarrow> (case b of None \<Rightarrow> None | Some y \<Rightarrow> Some (x + y))),
      WDivide = (\<lambda>a b t. case a of None \<Rightarrow> None
                      | Some x \<Rightarrow> (case b of None \<Rightarrow> None | Some y \<Rightarrow> Some (x - y))),
      WApproxEqual = (\<lambda>a b d. case a of None \<Rightarrow> b = None
                      | Some x \<Rightarrow> (case b of None \<Rightarrow> False | Some y \<Rightarrow> x \<le> y + d \<and> y \<le> x + d)),
      WProperties = 31,
      WType = ''tropical''\<rparr>"

section \<open>Properties of the reweight command\<close>

text \<open>
  C7: with an input path and a potentials path on the command line, a failed load of the
  automaton or a failed parse of the potentials ends the run with a non-zero status, and
  neither Reweight nor Write has been called; they are called only when both loads succeed.
\<close>

theorem main_load_failure:
  assumes "3 \<le> length argv" and "length argv \<le> 4"
  shows "(\<not> loads_ok env argv \<longrightarrow>
            status (main env to_final argv) \<noteq> 0
            \<and> \<not> list_ex is_WriteCall (effects (main env to_final argv))
            \<and> \<not> list_ex is_ReweightCall (effects (main env to_final argv)))
       \<and> (list_ex is_WriteCall (effects (main env to_final argv))
            \<or> list_ex is_ReweightCall (effects (main env to_final argv))
          \<longrightarrow> loads_ok env argv)"
  using assms
  by (auto simp: main_def loads_ok_def Let_def split: option.splits)

theorem main_load_failure_witness:
  "status (main (test_env True) False [''fstreweight'', ''missing.fst'', ''pot.txt'']) \<noteq> 0
   \<and> \<not> list_ex is_WriteCall
         (effects (main (test_env True) False [''fstreweight'', ''missing.fst'', ''pot.txt'']))
   \<and> \<not> loads_ok (test_env True) [''fstreweight'', ''missing.fst'', ''pot.txt'']"
  using main_load_failure [where argv = "[''fstreweight'', ''missing.fst'', ''pot.txt'']"
      and env = "test_env True" and to_final = False]
  by (simp add: loads_ok_def test_env_def)

text \<open>
  C10: the exit status does not depend on the outcome of Write: replacing the Write
  collaborator by any other leaves the status unchanged, and once both loads have
  succeeded the status is 0 whatever Write returned, the Write call being the last effect.
\<close>

theorem main_status_ignores_write:
  "status (main (env\<lparr>Write := w\<rparr>) to_final argv) = status (main env to_final argv)
   \<and> (3 \<le> length argv \<and> length argv \<le> 4 \<and> loads_ok env argv \<longrightarrow>
        status (main (env\<lparr>Write := w\<rparr>) to_final argv) = 0
        \<and> (\<exists>n f. last (effects (main (env\<lparr>Write := w\<rparr>) to_final argv)) = WriteCall n f (w f n)))"
  by (auto simp: main_def loads_ok_def Let_def split: option.splits)

theorem main_status_ignores_write_witness:
  "loads_ok (test_env True) [''fstreweight'', ''in.fst'', ''pot.txt'', ''out.fst'']
   \<and> status (main ((test_env True)\<lparr>Write := \<lambda>f n. False\<rparr>) True
        [''fstreweight'', ''in.fst'', ''pot.txt'', ''out.fst'']) = 0
   \<and> last (effects (main ((test_env True)\<lparr>Write := \<lambda>f n. False\<rparr>) True
        [''fstreweight'', ''in.fst'', ''pot.txt'', ''out.fst'']))
       = WriteCall ''out.fst'' [1, 2] False"
  using main_status_ignores_write
    [where env = "test_env True" and w = "\<lambda>f n. False" and to_final = True
      and argv = "[''fstreweight'', ''in.fst'', ''pot.txt'', ''out.fst'']"]
  by (simp add: loads_ok_def test_env_def main_def GetReweightType_def)

section \<open>The merge\<close>


lemma set_KeyUnion: "set (KeyUnion ks1 ks2) = set ks1 \<union> set ks2"
  by (induction ks1 ks2 rule: KeyUnion.induct) auto

lemma sorted_KeyUnion:
  "sorted_wrt (<) ks1 \<Longrightarrow> sorted_wrt (<) ks2 \<Longrightarrow> sorted_wrt (<) (KeyUnion ks1 ks2)"
  by (induction ks1 ks2 rule: KeyUnion.induct) (auto simp: set_KeyUnion)

lemma distinct_KeyUnion:
  "sorted_wrt (<) ks1 \<Longrightarrow> sorted_wrt (<) ks2 \<Longrightarrow> distinct (KeyUnion ks1 ks2)"
  using sorted_KeyUnion strict_sorted_iff by blast

lemma ValueAt_Zero: "DefaultValue t = WZero W \<Longrightarrow> ValueAt t k = ValueOrZero W t k"
  by (simp add: ValueAt_def ValueOrZero_def split: option.splits)


text \<open>Skipping the pairs whose value is neutral for the accumulation does not change it.\<close>

lemma fold_skip_neutral:
  assumes "\<And>r. add r z = r"
  shows "fold (\<lambda>it result. add result (snd it))
           (filter (\<lambda>p. snd p \<noteq> z) (map (\<lambda>k. (k, g k)) ks)) a
         = fold (\<lambda>k acc. add acc (g k)) ks a"
  using assms by (induction ks arbitrary: a) simp_all



lemma MinPlus_simps:
  "WZero MinPlus = None"
  "WOne MinPlus = Some 0"
  "WPlus MinPlus a b = (case a of None \<Rightarrow> b
      | Some x \<Rightarrow> (case b of None \<Rightarrow> Some x | Some y \<Rightarrow> Some (min x y)))"
  "WTimes MinPlus a b = (case a of None \<Rightarrow> None
      | Some x \<Rightarrow> (case b of None \<Rightarrow> None | Some y \<Rightarrow> Some (x + y)))"
  "WDivide MinPlus a b t = (case a of None \<Rightarrow> None
      | Some x \<Rightarrow> (case b of None \<Rightarrow> None | Some y \<Rightarrow> Some (x - y)))"
  "WProperties MinPlus = 31"
  "WType MinPlus = ''tropical''"
  by (simp_all add: MinPlus_def)

section \<open>Properties of the sparse power weight\<close>

text \<open>On ordered operands the traversal of the merge visits every key once, in order.\<close>

lemma KeyUnion_sort_remdups:
  assumes "sorted_wrt (<) ks1" and "sorted_wrt (<) ks2"
  shows "KeyUnion ks1 ks2 = sort (remdups (ks1 @ ks2))"
proof (rule sorted_distinct_set_unique)
  from sorted_KeyUnion [OF assms] show "sorted (KeyUnion ks1 ks2)"
    using strict_sorted_iff by blast
  from distinct_KeyUnion [OF assms] show "distinct (KeyUnion ks1 ks2)" .
  show "sorted (sort (remdups (ks1 @ ks2)))" by simp
  show "distinct (sort (remdups (ks1 @ ks2)))" by simp
  show "set (KeyUnion ks1 ks2) = set (sort (remdups (ks1 @ ks2)))"
    by (simp add: set_KeyUnion)
qed

lemma KeyUnion_AllKeys:
  "sorted_wrt (<) (Keys t1) \<Longrightarrow> sorted_wrt (<) (Keys t2) \<Longrightarrow>
   KeyUnion (Keys t1) (Keys t2) = AllKeys t1 t2"
  by (simp add: AllKeys_def KeyUnion_sort_remdups)




text \<open>
  What DotProduct accumulates before it returns: for two power weights with ordered keys
  whose absent keys read as Zero, over a base weight with Times(Zero, Zero) = Zero and
  Plus(a, Zero) = a, the local \<^verbatim>\<open>result\<close> holds the Plus-accumulation of the spec.
\<close>

lemma DotProduct_accumulates:
  assumes "sorted_wrt (<) (Keys p1)" and "sorted_wrt (<) (Keys p2)"
    and "DefaultValue p1 = WZero W" and "DefaultValue p2 = WZero W"
    and "WTimes W (WZero W) (WZero W) = WZero W"
    and "\<forall>a. WPlus W a (WZero W) = a"
  shows "DotProduct W p1 p2 = ToDestroyedLocal (DotProduct_spec W p1 p2)"
proof -
  let ?g = "\<lambda>k. WTimes W (ValueOrZero W p1 k) (ValueOrZero W p2 k)"
  have product: "Pairs (Times_SPW W p1 p2)
      = filter (\<lambda>p. snd p \<noteq> WZero W) (map (\<lambda>k. (k, ?g k)) (AllKeys p1 p2))"
    using assms(1-5)
    by (simp add: Times_SPW_def SparseTupleWeightMap_def SparseTupleWeightTimesMapper_def Let_def
        ValueAt_Zero [of _ W] KeyUnion_AllKeys)
  have neutral: "\<And>r. WPlus W r (WZero W) = r"
    using assms(6) by simp
  have "fold (\<lambda>it result. WPlus W result (snd it)) (Pairs (Times_SPW W p1 p2)) (WZero W)
        = DotProduct_spec W p1 p2"
    unfolding DotProduct_spec_def product
    by (rule fold_skip_neutral [where add = "WPlus W" and z = "WZero W" and g = ?g, OF neutral])
  then show ?thesis
    by (simp add: DotProduct_def Let_def)
qed

text \<open>The reference DotProduct returns is dead on every call: the caller can read nothing.\<close>

lemma DotProduct_dangles: "ReadReference (DotProduct W w1 w2) = None"
  by (simp add: DotProduct_def Let_def)

text \<open>
  C2: DotProduct(p1, p2) should be the Plus-accumulation of Times(p1[k], p2[k]) over the
  keys of either operand. For {1: 3, 2: 5} and {2: 1, 3: 7} over the min-plus weight that
  is 6. The source accumulates 6 in its local \<^verbatim>\<open>result\<close> and returns a reference to
  that local, which is destroyed at the return: the caller reads no value.
\<close>

theorem DotProduct_returns_destroyed_local:
  "DotProduct MinPlus \<lparr>DefaultValue = None, Pairs = [(1, Some 3), (2, Some 5)]\<rparr> \<lparr>DefaultValue = None, Pairs = [(2, Some 1), (3, Some 7)]\<rparr> = ToDestroyedLocal (Some 6)
   \<and> ReadReference (DotProduct MinPlus \<lparr>DefaultValue = None, Pairs = [(1, Some 3), (2, Some 5)]\<rparr> \<lparr>DefaultValue = None, Pairs = [(2, Some 1), (3, Some 7)]\<rparr>) = None
   \<and> DotProduct_spec MinPlus \<lparr>DefaultValue = None, Pairs = [(1, Some 3), (2, Some 5)]\<rparr> \<lparr>DefaultValue = None, Pairs = [(2, Some 1), (3, Some 7)]\<rparr> = Some 6"
  by (simp add: DotProduct_def Times_SPW_def SparseTupleWeightMap_def
      SparseTupleWeightTimesMapper_def Let_def DotProduct_spec_def AllKeys_def Keys_def
      ValueAt_def ValueOrZero_def MinPlus_simps)





text \<open>
  What ApproxEqual computes: the merge under the mapper built with \<^verbatim>\<open>kDelta\<close>,
  whatever \<open>delta\<close> the caller passes.
\<close>

lemma ApproxEqual_SPW_uses_kDelta:
  "ApproxEqual_SPW H W w1 w2 delta = ApproxEqual_spec W w1 w2 (kDelta H)"
  by (simp add: ApproxEqual_SPW_def ApproxEqual_spec_def Let_def)

text \<open>
  C1: ApproxEqual(w1, w2, delta) should be the comparison with One() of the merge under the
  mapper built with the caller's delta. With the tolerance constant 1/1024, the weights
  {1: 0} and {1: 1/2} and delta = 1, the source answers false, while the merge under the
  mapper built with delta = 1 is One(). The same happens for the two single-value tuples
  of 0 and of 1/2.
\<close>

theorem ApproxEqual_ignores_delta:
  "\<not> ApproxEqual_SPW weight_h_values MinPlus
        \<lparr>DefaultValue = None, Pairs = [(1, Some 0)]\<rparr>
        \<lparr>DefaultValue = None, Pairs = [(1, Some (1 / 2))]\<rparr> 1
   \<and> ApproxEqual_spec MinPlus
        \<lparr>DefaultValue = None, Pairs = [(1, Some 0)]\<rparr>
        \<lparr>DefaultValue = None, Pairs = [(1, Some (1 / 2))]\<rparr> 1
   \<and> \<not> ApproxEqual_SPW weight_h_values MinPlus
        (SparseTupleWeight_of (Some 0)) (SparseTupleWeight_of (Some (1 / 2))) 1
   \<and> ApproxEqual_spec MinPlus
        (SparseTupleWeight_of (Some 0)) (SparseTupleWeight_of (Some (1 / 2))) 1"
  by (simp add: ApproxEqual_SPW_def ApproxEqual_spec_def SparseTupleWeightMap_def
      SparseTupleWeightApproxMapper_def One_SPW_def SparseTupleWeight_One_def
      SparseTupleWeight_of_def Keys_def ValueAt_def Let_def weight_h_values_def MinPlus_def)

section \<open>Properties and type name\<close>

lemma mask_bit:
  fixes p a b c d :: "64 word"
  shows "(p AND (a OR b OR c OR d)) AND a = p AND a"
    and "(p AND (a OR b OR c OR d)) AND b = p AND b"
    and "(p AND (a OR b OR c OR d)) AND c = p AND c"
    and "(p AND (a OR b OR c OR d)) AND d = p AND d"
  by (rule bit_eqI; auto simp: bit_and_iff bit_or_iff)+

text \<open>
  C6: Properties() is W::Properties() restricted to the four bits kLeftSemiring,
  kRightSemiring, kCommutative and kIdempotent: each of the four is set in the power weight
  exactly as it is in W (so the power weight is commutative, or idempotent, iff W is), and
  every flag that shares no bit with the four is cleared.
\<close>

theorem Properties_restricts:
  "Properties_SPW H W AND kLeftSemiring H = WProperties W AND kLeftSemiring H
   \<and> Properties_SPW H W AND kRightSemiring H = WProperties W AND kRightSemiring H
   \<and> Properties_SPW H W AND kCommutative H = WProperties W AND kCommutative H
   \<and> Properties_SPW H W AND kIdempotent H = WProperties W AND kIdempotent H
   \<and> (flag AND (kLeftSemiring H OR kRightSemiring H OR kCommutative H OR kIdempotent H) = 0
        \<longrightarrow> Properties_SPW H W AND flag = 0)"
proof -
  have "Properties_SPW H W AND flag = 0"
    if "flag AND (kLeftSemiring H OR kRightSemiring H OR kCommutative H OR kIdempotent H) = 0"
  proof -
    have "Properties_SPW H W AND flag
        = WProperties W AND
            (flag AND (kLeftSemiring H OR kRightSemiring H OR kCommutative H OR kIdempotent H))"
      by (simp add: Properties_SPW_def ac_simps)
    with that show ?thesis by simp
  qed
  then show ?thesis
    by (simp add: Properties_SPW_def mask_bit)
qed

theorem Properties_restricts_witness:
  "Properties_SPW weight_h_values MinPlus = 15
   \<and> (16 :: 64 word) AND (1 OR 2 OR 4 OR 8) = 0
   \<and> Properties_SPW weight_h_values MinPlus AND 16 = 0
   \<and> WProperties MinPlus AND 16 = 16"
  using Properties_restricts [where H = weight_h_values and W = MinPlus and flag = 16]
  by (simp add: Properties_SPW_def weight_h_values_def MinPlus_def)

lemma digit_char_inj:
  assumes "a < 10" and "b < 10" and "DigitChars ! a = DigitChars ! b"
  shows "a = b"
proof -
  have "distinct DigitChars" and "length DigitChars = 10"
    by (simp_all add: DigitChars_def)
  with assms show ?thesis
    by (simp add: nth_eq_iff_index_eq)
qed

lemma DecimalDigits_small: "n < 10 \<Longrightarrow> DecimalDigits n = [DigitChars ! n]"
  by (simp add: DecimalDigits.simps)

lemma DecimalDigits_large:
  "10 \<le> n \<Longrightarrow> DecimalDigits n = DecimalDigits (n div 10) @ [DigitChars ! (n mod 10)]"
  by (subst DecimalDigits.simps) simp

lemma DecimalDigits_nonempty: "DecimalDigits n \<noteq> []"
  by (subst DecimalDigits.simps) simp

text \<open>Two numbers with the same numeral are equal: by induction along the digits.\<close>

lemma DecimalDigits_inj: "DecimalDigits n = DecimalDigits m \<Longrightarrow> n = m"
proof (induction n arbitrary: m rule: DecimalDigits.induct)
  case (1 n)
  show ?case
  proof (cases "n < 10")
    case small_n: True
    show ?thesis
    proof (cases "m < 10")
      case True
      with small_n "1.prems" show ?thesis
        by (auto simp: DecimalDigits_small dest: digit_char_inj)
    next
      case False
      with small_n "1.prems" show ?thesis
        using DecimalDigits_nonempty [of "m div 10"]
        by (simp add: DecimalDigits_small DecimalDigits_large)
    qed
  next
    case large_n: False
    show ?thesis
    proof (cases "m < 10")
      case True
      with large_n "1.prems" show ?thesis
        using DecimalDigits_nonempty [of "n div 10"]
        by (simp add: DecimalDigits_small DecimalDigits_large)
    next
      case False
      with large_n "1.prems" have
        eq: "DecimalDigits (n div 10) = DecimalDigits (m div 10)"
        and ch: "DigitChars ! (n mod 10) = DigitChars ! (m mod 10)"
        by (simp_all add: DecimalDigits_large)
      from "1.IH" [OF large_n eq] have "n div 10 = m div 10" .
      moreover from ch have "n mod 10 = m mod 10"
        by (intro digit_char_inj) simp_all
      ultimately show ?thesis
        by (metis div_mult_mod_eq)
    qed
  qed
qed

lemma Int64ToStr_inj_nat: "Int64ToStr (int a) = Int64ToStr (int b) \<Longrightarrow> a = b"
  by (auto simp: Int64ToStr_def dest: DecimalDigits_inj)

text \<open>
  C8: the first call of Type() (empty static) answers W's type name followed by "_^n" and,
  when K is not 4 bytes wide, by "_" and the bit width of K; two key widths never give the
  same name over one base weight; and a later call answers the cached name.
\<close>

theorem Type_name:
  "fst (Type_SPW W sizeof_K []) =
      WType W @ ''_^n'' @ (if sizeof_K = 4 then [] else ''_'' @ Int64ToStr (8 * int sizeof_K))
   \<and> (s1 \<noteq> s2 \<longrightarrow> fst (Type_SPW W s1 []) \<noteq> fst (Type_SPW W s2 []))
   \<and> Type_SPW W sizeof_K (snd (Type_SPW W sizeof_K [])) = Type_SPW W sizeof_K []"
proof -
  have "fst (Type_SPW W s1 []) \<noteq> fst (Type_SPW W s2 [])" if "s1 \<noteq> s2"
  proof
    assume eq: "fst (Type_SPW W s1 []) = fst (Type_SPW W s2 [])"
    have "8 * s1 = 8 * s2"
    proof (cases "s1 = 4 \<or> s2 = 4")
      case True
      with eq that show ?thesis
        by (auto simp: Type_SPW_def Let_def split: if_splits)
    next
      case False
      with eq have "Int64ToStr (int (8 * s1)) = Int64ToStr (int (8 * s2))"
        by (simp add: Type_SPW_def Let_def)
      then show ?thesis by (rule Int64ToStr_inj_nat)
    qed
    with that show False by simp
  qed
  then show ?thesis
    by (simp add: Type_SPW_def Let_def)
qed

theorem Type_name_witness:
  "fst (Type_SPW MinPlus 8 []) = ''tropical_^n_64''
   \<and> fst (Type_SPW MinPlus 8 []) \<noteq> fst (Type_SPW MinPlus 4 [])
   \<and> Type_SPW MinPlus 8 (snd (Type_SPW MinPlus 8 [])) = Type_SPW MinPlus 8 []"
proof -
  note T = Type_name [where W = MinPlus and sizeof_K = 8 and ?s1.0 = 8 and ?s2.0 = 4]
  have name: "fst (Type_SPW MinPlus 8 []) = ''tropical_^n_64''"
    using T by (auto simp: MinPlus_simps Int64ToStr_def DecimalDigits.simps DigitChars_def)
  have differ: "fst (Type_SPW MinPlus 8 []) \<noteq> fst (Type_SPW MinPlus 4 [])"
    using T by auto
  have cached: "Type_SPW MinPlus 8 (snd (Type_SPW MinPlus 8 [])) = Type_SPW MinPlus 8 []"
    using T by auto
  from name differ cached show ?thesis by (intro conjI)
qed

end
